theory Spec2Isabelle
  imports Main "HOL-Library.Word"
begin

unbundle bit_operations_syntax

chapter \<open>The NMSLIB wrapper of the k-NN plugin\<close>

text \<open>
  A shallow embedding of `jni/src/nmslib_wrapper.cpp`: the in-place vector encoders that
  CreateIndex and QueryIndex carry inline, and the three operations CreateIndex,
  LoadIndex and QueryIndex as state-passing functions over a ledger of the native
  resources they hold. Line numbers refer to that file.
\<close>

section \<open>Native buffers and errors\<close>

text \<open>
  A pinned Java float array is a run of 32-bit cells. The wrapper reads a cell as a
  `float` and overwrites cells through `int32_t *` and `uint32_t *` views of the same
  memory, so a cell is modelled by its bit pattern. Every C++ exception of the wrapper is
  a `std::runtime_error` carrying a message; exceptions raised by the JNI utility layer
  or by the index library are `External`. `OutOfBounds` and `UndefinedBehaviour` stand
  for executions that C++ gives no meaning to: touching a cell outside the pinned buffer
  and using a pointer that was never initialised.
\<close>

datatype error =
    RuntimeError string
  | External string
  | OutOfBounds
  | UndefinedBehaviour

type_synonym buffer = "32 word list"

text \<open>
  `x != 0.0f` on an IEEE-754 single: false exactly for +0.0 and -0.0, the two patterns
  whose 31 low bits are all clear; true for every other pattern, NaN included.
\<close>

definition float_ne_zero :: "32 word \<Rightarrow> bool" where
  "float_ne_zero x = (x AND 0x7FFFFFFF \<noteq> 0)"

definition load :: "buffer \<Rightarrow> nat \<Rightarrow> error + 32 word" where
  "load buf i = (if i < length buf then Inr (buf ! i) else Inl OutOfBounds)"

definition store :: "buffer \<Rightarrow> nat \<Rightarrow> 32 word \<Rightarrow> error + buffer" where
  "store buf i v = (if i < length buf then Inr (buf[i := v]) else Inl OutOfBounds)"

section \<open>Encoding at build time (CreateIndex, lines 115 to 143)\<close>

text \<open>
  The loop counters are `int32_t` and `unsigned`, and `dim` is a Java array length, so
  `0 <= i <= dim < 2^31` throughout and no counter wraps; they are natural numbers here.
  The value stored through the integer view is the counter truncated to 32 bits.
\<close>

function CreateIndex_sparse_loop :: "nat \<Rightarrow> nat \<Rightarrow> buffer \<Rightarrow> nat \<Rightarrow> error + (buffer \<times> nat)" where
  "CreateIndex_sparse_loop dim i floatArrayCpp numElems =
     (if i < dim then
        (case load floatArrayCpp i of
           Inl e \<Rightarrow> Inl e
         | Inr x \<Rightarrow>
             if float_ne_zero x then
               (case store floatArrayCpp numElems (word_of_nat i) of
                  Inl e \<Rightarrow> Inl e
                | Inr buf' \<Rightarrow> CreateIndex_sparse_loop dim (i + 1) buf' (numElems + 1))
             else CreateIndex_sparse_loop dim (i + 1) floatArrayCpp numElems)
      else Inr (floatArrayCpp, numElems))"
  by pat_completeness auto
termination
  by (relation "measure (\<lambda>(dim, i, buf, n). dim - i)") auto

text \<open>
  One round of the bit_jaccard loop body, lines 131 to 140: read `elem`, clear the word
  and count it when `shift == 0`, then set the bit when `elem != 0.0f`. `i & 31` is
  the bitwise AND on the counter, and `1 << shift`, once stored into the unsigned word,
  is the word with only bit `shift` set, for every shift from 0 to 31.
\<close>

definition CreateIndex_bitset_step :: "nat \<Rightarrow> buffer \<Rightarrow> nat \<Rightarrow> error + (buffer \<times> nat)" where
  "CreateIndex_bitset_step i bitArray numElems =
     (case load bitArray i of
        Inl e \<Rightarrow> Inl e
      | Inr elem \<Rightarrow>
          let word = i div 32; shift = i AND 31 in
          (case (if shift = 0
                 then (case store bitArray word 0 of
                         Inl e \<Rightarrow> Inl e
                       | Inr b \<Rightarrow> Inr (b, numElems + 1))
                 else Inr (bitArray, numElems)) of
             Inl e \<Rightarrow> Inl e
           | Inr (b1, n1) \<Rightarrow>
               if float_ne_zero elem then
                 (case load b1 word of
                    Inl e \<Rightarrow> Inl e
                  | Inr w \<Rightarrow>
                      (case store b1 word (w OR push_bit shift 1) of
                         Inl e \<Rightarrow> Inl e
                       | Inr b2 \<Rightarrow> Inr (b2, n1)))
               else Inr (b1, n1)))"

function CreateIndex_bitset_loop :: "nat \<Rightarrow> nat \<Rightarrow> buffer \<Rightarrow> nat \<Rightarrow> error + (buffer \<times> nat)" where
  "CreateIndex_bitset_loop dim i bitArray numElems =
     (if i < dim then
        (case CreateIndex_bitset_step i bitArray numElems of
           Inl e \<Rightarrow> Inl e
         | Inr (b, n) \<Rightarrow> CreateIndex_bitset_loop dim (i + 1) b n)
      else Inr (bitArray, numElems))"
  by pat_completeness auto
termination
  by (relation "measure (\<lambda>(dim, i, buf, n). dim - i)") auto

text \<open>
  The whole branch on the space type. The result is the buffer after the in-place
  encoding and `numElems`, the number of 32-bit cells handed to `similarity::Object`.
\<close>

definition CreateIndex_encode :: "string \<Rightarrow> nat \<Rightarrow> buffer \<Rightarrow> error + (buffer \<times> nat)" where
  "CreateIndex_encode spaceTypeCpp dim floatArrayCpp =
     (if spaceTypeCpp = ''jaccard_sparse'' then
        CreateIndex_sparse_loop dim 0 floatArrayCpp 0
      else if spaceTypeCpp = ''bit_jaccard'' then
        (if dim < 2 then
           Inl (RuntimeError ''Dimension of vectors for bit_jaccard must be > 1!'')
         else
           (case CreateIndex_bitset_loop dim 0 floatArrayCpp 0 of
              Inl e \<Rightarrow> Inl e
            | Inr (b, n) \<Rightarrow>
                (case store b n (word_of_nat dim) of
                   Inl e \<Rightarrow> Inl e
                 | Inr b' \<Rightarrow> Inr (b', n + 1))))
      else Inr (floatArrayCpp, dim))"

section \<open>Encoding at query time (QueryIndex, lines 227 to 255)\<close>

text \<open>
  QueryIndex repeats the encoder inline on `rawQueryvector`, branching on the descriptor
  string of the handle's space object. It is translated separately, line by line, so that
  the two copies can be compared.
\<close>

function QueryIndex_sparse_loop :: "nat \<Rightarrow> nat \<Rightarrow> buffer \<Rightarrow> nat \<Rightarrow> error + (buffer \<times> nat)" where
  "QueryIndex_sparse_loop dim i rawQueryvector numElems =
     (if i < dim then
        (case load rawQueryvector i of
           Inl e \<Rightarrow> Inl e
         | Inr x \<Rightarrow>
             if float_ne_zero x then
               (case store rawQueryvector numElems (word_of_nat i) of
                  Inl e \<Rightarrow> Inl e
                | Inr buf' \<Rightarrow> QueryIndex_sparse_loop dim (i + 1) buf' (numElems + 1))
             else QueryIndex_sparse_loop dim (i + 1) rawQueryvector numElems)
      else Inr (rawQueryvector, numElems))"
  by pat_completeness auto
termination
  by (relation "measure (\<lambda>(dim, i, buf, n). dim - i)") auto

definition QueryIndex_bitset_step :: "nat \<Rightarrow> buffer \<Rightarrow> nat \<Rightarrow> error + (buffer \<times> nat)" where
  "QueryIndex_bitset_step i bitArray numElems =
     (case load bitArray i of
        Inl e \<Rightarrow> Inl e
      | Inr elem \<Rightarrow>
          let word = i div 32; shift = i AND 31 in
          (case (if shift = 0
                 then (case store bitArray word 0 of
                         Inl e \<Rightarrow> Inl e
                       | Inr b \<Rightarrow> Inr (b, numElems + 1))
                 else Inr (bitArray, numElems)) of
             Inl e \<Rightarrow> Inl e
           | Inr (b1, n1) \<Rightarrow>
               if float_ne_zero elem then
                 (case load b1 word of
                    Inl e \<Rightarrow> Inl e
                  | Inr w \<Rightarrow>
                      (case store b1 word (w OR push_bit shift 1) of
                         Inl e \<Rightarrow> Inl e
                       | Inr b2 \<Rightarrow> Inr (b2, n1)))
               else Inr (b1, n1)))"

function QueryIndex_bitset_loop :: "nat \<Rightarrow> nat \<Rightarrow> buffer \<Rightarrow> nat \<Rightarrow> error + (buffer \<times> nat)" where
  "QueryIndex_bitset_loop dim i bitArray numElems =
     (if i < dim then
        (case QueryIndex_bitset_step i bitArray numElems of
           Inl e \<Rightarrow> Inl e
         | Inr (b, n) \<Rightarrow> QueryIndex_bitset_loop dim (i + 1) b n)
      else Inr (bitArray, numElems))"
  by pat_completeness auto
termination
  by (relation "measure (\<lambda>(dim, i, buf, n). dim - i)") auto

definition QueryIndex_encode :: "string \<Rightarrow> nat \<Rightarrow> buffer \<Rightarrow> error + (buffer \<times> nat)" where
  "QueryIndex_encode strDesc dim rawQueryvector =
     (if strDesc = ''jaccard_sparse'' then
        QueryIndex_sparse_loop dim 0 rawQueryvector 0
      else if strDesc = ''bit_jaccard'' then
        (if dim < 2 then
           Inl (RuntimeError ''Dimension of vectors for bit_jaccard must be > 1!'')
         else
           (case QueryIndex_bitset_loop dim 0 rawQueryvector 0 of
              Inl e \<Rightarrow> Inl e
            | Inr (b, n) \<Rightarrow>
                (case store b n (word_of_nat dim) of
                   Inl e \<Rightarrow> Inl e
                 | Inr b' \<Rightarrow> Inr (b', n + 1))))
      else Inr (rawQueryvector, dim))"

declare CreateIndex_sparse_loop.simps [simp del]
declare CreateIndex_bitset_loop.simps [simp del]
declare QueryIndex_sparse_loop.simps [simp del]
declare QueryIndex_bitset_loop.simps [simp del]

section \<open>Java values, parameter names and the native collaborators\<close>

text \<open>
  What crosses the JNI boundary: strings, boxed integers and maps from strings to objects.
  A null reference is `None` at the argument that carries it.
\<close>

datatype jobject =
    JString string
  | JInteger int
  | JMap "(string \<times> jobject) list"

text \<open>
  The string constants of namespace `knn_jni` are declared in a header that is not part
  of the wrapper file; they are taken as a parameter.
\<close>

record knn_jni =
  PARAMETERS :: string
  EF_CONSTRUCTION :: string
  EF_CONSTRUCTION_NMSLIB :: string
  M :: string
  M_NMSLIB :: string
  INDEX_THREAD_QUANTITY :: string
  SPACE_TYPE :: string
  L2 :: string
  L1 :: string
  LINF :: string
  COSINESIMIL :: string
  INNER_PRODUCT :: string
  NEG_DOT_PRODUCT :: string

text \<open>
  The calls into the JNI utility object and into the index library can throw. Which of
  them do is a parameter of every operation, so that each catch handler and each unwinding
  path of the wrapper is exercised: `GetObjectArrayElement_throws lib i` says that fetching
  `vectorsJ[i]` throws, `new_Object_throws lib n` that the constructor of the `n`-th
  `similarity::Object` of the call throws, `push_back_throws lib i` that appending the
  pointer of vector `i` to the dataset throws, and so on. `hands_out_copy lib ref` says
  whether the runtime answers GetFloatArrayElements on array `ref` with a copy or with
  the array's own storage. `search_candidates` is the sequence of (distance, id) pairs
  that the search primitive offers to the result queue for an encoded query.
\<close>

record 'd backend =
  CreateSpace_throws :: "string \<Rightarrow> bool"
  GetIntArrayElements_throws :: bool
  GetObjectArrayElement_throws :: "nat \<Rightarrow> bool"
  GetFloatArrayElements_throws :: "nat \<Rightarrow> bool"
  hands_out_copy :: "nat \<Rightarrow> bool"
  new_Object_throws :: "nat \<Rightarrow> bool"
  push_back_throws :: "nat \<Rightarrow> bool"
  CreateMethod_throws :: bool
  index_CreateIndex_throws :: bool
  SaveIndex_throws :: bool
  index_LoadIndex_throws :: "string \<Rightarrow> bool"
  SetQueryTimeParams_throws :: bool
  Search_throws :: bool
  search_candidates :: "buffer \<Rightarrow> ('d \<times> int) list"

text \<open>`std::to_string` on an `int`: decimal digits, with a minus sign when negative.\<close>

fun digits :: "nat \<Rightarrow> string" where
  "digits n = (if n < 10 then [char_of (48 + n)]
               else digits (n div 10) @ [char_of (48 + n mod 10)])"

declare digits.simps [simp del]

definition to_string :: "int \<Rightarrow> string" where
  "to_string n = (if n < 0 then CHR ''-'' # digits (nat (- n)) else digits (nat n))"

text \<open>
  Modelled from the spec: the parameters are a map from names to strings, integers and
  a nested map, and `spaceType` is a required key (section 6); the conversion helpers
  belong to the JNI utility layer. A conversion applied to an object of another kind
  throws, and so does the lookup of a key that is absent.
\<close>

definition ConvertJavaMapToCppMap :: "jobject \<Rightarrow> error + (string \<rightharpoonup> jobject)" where
  "ConvertJavaMapToCppMap obj =
     (case obj of JMap kvs \<Rightarrow> Inr (map_of kvs)
      | _ \<Rightarrow> Inl (External ''ConvertJavaMapToCppMap''))"

definition ConvertJavaObjectToCppInteger :: "jobject \<Rightarrow> error + int" where
  "ConvertJavaObjectToCppInteger obj =
     (case obj of JInteger n \<Rightarrow> Inr n
      | _ \<Rightarrow> Inl (External ''ConvertJavaObjectToCppInteger''))"

definition ConvertJavaObjectToCppString :: "jobject \<Rightarrow> error + string" where
  "ConvertJavaObjectToCppString obj =
     (case obj of JString s \<Rightarrow> Inr s
      | _ \<Rightarrow> Inl (External ''ConvertJavaObjectToCppString''))"

definition GetJObjectFromMapOrThrow :: "(string \<rightharpoonup> jobject) \<Rightarrow> string \<Rightarrow> error + jobject" where
  "GetJObjectFromMapOrThrow m key =
     (case m key of Some obj \<Rightarrow> Inr obj
      | None \<Rightarrow> Inl (External ''GetJObjectFromMapOrThrow''))"

text \<open>TranslateSpaceType, lines 298 to 328.\<close>

definition TranslateSpaceType :: "knn_jni \<Rightarrow> string \<Rightarrow> error + string" where
  "TranslateSpaceType K spaceType =
     (if spaceType = L2 K then Inr spaceType
      else if spaceType = L1 K then Inr spaceType
      else if spaceType = LINF K then Inr spaceType
      else if spaceType = COSINESIMIL K then Inr spaceType
      else if spaceType = INNER_PRODUCT K then Inr (NEG_DOT_PRODUCT K)
      else if spaceType = ''bit_jaccard'' then Inr ''bit_jaccard''
      else if spaceType = ''jaccard_sparse'' then Inr ''jaccard_sparse''
      else Inl (RuntimeError ''Invalid spaceType''))"

text \<open>An optional integer parameter turned into `name=value`, as lines 58 to 74 do.\<close>

definition optional_parameter ::
  "(string \<rightharpoonup> jobject) \<Rightarrow> string \<Rightarrow> string \<Rightarrow> string list \<Rightarrow> error + string list" where
  "optional_parameter m key name indexParameters =
     (case m key of
        None \<Rightarrow> Inr indexParameters
      | Some obj \<Rightarrow>
          (case ConvertJavaObjectToCppInteger obj of
             Inl e \<Rightarrow> Inl e
           | Inr n \<Rightarrow> Inr (indexParameters @ [name @ ''='' @ to_string n])))"

text \<open>Lines 50 to 74: the build parameters handed to the index library.\<close>

definition CreateIndex_parameters ::
  "knn_jni \<Rightarrow> (string \<rightharpoonup> jobject) \<Rightarrow> error + string list" where
  "CreateIndex_parameters K parametersCpp =
     (case (case parametersCpp (PARAMETERS K) of
              None \<Rightarrow> Inr []
            | Some subParametersJ \<Rightarrow>
                (case ConvertJavaMapToCppMap subParametersJ of
                   Inl e \<Rightarrow> Inl e
                 | Inr subParametersCpp \<Rightarrow>
                     (case optional_parameter subParametersCpp (EF_CONSTRUCTION K)
                             (EF_CONSTRUCTION_NMSLIB K) [] of
                        Inl e \<Rightarrow> Inl e
                      | Inr ps \<Rightarrow> optional_parameter subParametersCpp (M K) (M_NMSLIB K) ps))) of
        Inl e \<Rightarrow> Inl e
      | Inr ps \<Rightarrow>
          optional_parameter parametersCpp (INDEX_THREAD_QUANTITY K) (INDEX_THREAD_QUANTITY K) ps)"

text \<open>Lines 82 to 84, the same three calls in CreateIndex and in LoadIndex.\<close>

definition space_type_of :: "knn_jni \<Rightarrow> (string \<rightharpoonup> jobject) \<Rightarrow> error + string" where
  "space_type_of K parametersCpp =
     (case GetJObjectFromMapOrThrow parametersCpp (SPACE_TYPE K) of
        Inl e \<Rightarrow> Inl e
      | Inr spaceTypeJ \<Rightarrow>
          (case ConvertJavaObjectToCppString spaceTypeJ of
             Inl e \<Rightarrow> Inl e
           | Inr spaceTypeCpp \<Rightarrow> TranslateSpaceType K spaceTypeCpp))"

section \<open>Native resources\<close>

text \<open>
  The ledger of one call: the Java float arrays it was given (by position), the buffers
  it has obtained from them and not yet released, the balance of
  GetIntArrayElements against ReleaseIntArrayElements on the id array, the live
  `similarity::Object` instances with their address, id and payload, the live space, index
  and handle objects, and the index files written.
\<close>

record state =
  java_floats :: "buffer list"
  pinned_floats :: "nat list"
  pinned_ints :: int
  objects :: "(nat \<times> int \<times> buffer) list"
  allocated :: nat
  spaces :: nat
  indexes :: nat
  wrappers :: nat
  saved :: "(string \<times> string list \<times> (int \<times> buffer) list) list"

definition initial :: "buffer list \<Rightarrow> state" where
  "initial arrays =
     \<lparr>java_floats = arrays, pinned_floats = [], pinned_ints = 0, objects = [],
      allocated = 0, spaces = 0, indexes = 0, wrappers = 0, saved = []\<rparr>"

datatype release_mode = COPY_BACK_AND_FREE | JNI_COMMIT | JNI_ABORT

text \<open>
  The utility object `jniUtil` is not part of the wrapper file; its array calls stand for
  the JNI functions of the same names, declared in `jni.h` (line 24).
  GetFloatArrayElements pins the array and hands out a buffer with its contents: a copy,
  or the array's own storage, as the runtime chooses. The wrapper passes `nullptr` for
  `isCopy` (lines 113 and 225) and never learns which, so the choice is the parameter
  `hands_out_copy`. A write into the array's own storage is a write into the Java array:
  `write_through` puts the cells that an encoder has written where they are. The
  encoders write nothing before they fail.
  ReleaseFloatArrayElements unpins. For a copy it also writes the buffer back into the
  Java array unless the mode is JNI_ABORT, which discards it; JNI_COMMIT writes back and
  keeps the buffer. For the array's own storage the buffer and the array are the same
  cells, and writing back changes nothing.
  ReleaseIntArrayElements gives back the elements of the id array; a balance below zero
  records a release without a matching acquisition.
\<close>

definition GetFloatArrayElements :: "'d backend \<Rightarrow> nat \<Rightarrow> state \<Rightarrow> error + (buffer \<times> state)" where
  "GetFloatArrayElements lib ref st =
     (if GetFloatArrayElements_throws lib ref then Inl (External ''GetFloatArrayElements'')
      else Inr (java_floats st ! ref, st\<lparr>pinned_floats := pinned_floats st @ [ref]\<rparr>))"

definition write_through :: "'d backend \<Rightarrow> nat \<Rightarrow> buffer \<Rightarrow> state \<Rightarrow> state" where
  "write_through lib ref buf st =
     (if hands_out_copy lib ref then st
      else st\<lparr>java_floats := (java_floats st)[ref := buf]\<rparr>)"

definition ReleaseFloatArrayElements :: "state \<Rightarrow> nat \<Rightarrow> buffer \<Rightarrow> release_mode \<Rightarrow> state" where
  "ReleaseFloatArrayElements st ref buf mode =
     (case mode of
        JNI_ABORT \<Rightarrow> st\<lparr>pinned_floats := remove1 ref (pinned_floats st)\<rparr>
      | JNI_COMMIT \<Rightarrow> st\<lparr>java_floats := (java_floats st)[ref := buf]\<rparr>
      | COPY_BACK_AND_FREE \<Rightarrow>
          st\<lparr>java_floats := (java_floats st)[ref := buf],
             pinned_floats := remove1 ref (pinned_floats st)\<rparr>)"

definition ReleaseIntArrayElements :: "state \<Rightarrow> state" where
  "ReleaseIntArrayElements st = st\<lparr>pinned_ints := pinned_ints st - 1\<rparr>"

text \<open>
  Modelled from the spec: a dataset entry wraps the encoded bytes with the id
  (section 4.2); the class `similarity::Object` belongs to the index library. The
  constructor copies the first `numElems` cells of the buffer.
\<close>

definition new_Object :: "'d backend \<Rightarrow> int \<Rightarrow> buffer \<Rightarrow> state \<Rightarrow> error + (nat \<times> state)" where
  "new_Object lib ident data st =
     (if new_Object_throws lib (allocated st) then Inl (External ''similarity::Object'')
      else Inr (allocated st,
                st\<lparr>objects := objects st @ [(allocated st, ident, data)],
                   allocated := allocated st + 1\<rparr>))"

definition delete_Object :: "nat \<Rightarrow> state \<Rightarrow> state" where
  "delete_Object addr st = st\<lparr>objects := filter (\<lambda>entry. fst entry \<noteq> addr) (objects st)\<rparr>"

text \<open>`for (auto & it : dataset) { delete it; }`, lines 155 to 157 and 159 to 161.\<close>

definition delete_dataset :: "nat list \<Rightarrow> state \<Rightarrow> state" where
  "delete_dataset dataset st = fold delete_Object dataset st"

text \<open>
  Modelled from the spec: every vector has the same dimension as the first
  (section 4.2); the helper belongs to the JNI utility layer. With no vector at all the
  loop body below never runs and the value is not used.
\<close>

definition GetInnerDimensionOf2dJavaFloatArray :: "buffer list \<Rightarrow> nat" where
  "GetInnerDimensionOf2dJavaFloatArray vectors = (case vectors of [] \<Rightarrow> 0 | v # _ \<Rightarrow> length v)"

section \<open>CreateIndex\<close>

text \<open>
  A local pointer declared without an initialiser, such as `idsCpp` at line 99, holds
  nothing that may be used until it has been assigned.
\<close>

datatype 'a pointer = Uninitialised | Pointer 'a

text \<open>
  The loop of lines 106 to 147 over the vectors. `dataset` is the local vector of object
  pointers; it is returned with the exception, because the catch handler reads it.
  Line 145 constructs the object first and appends its pointer to `dataset` second; when
  the append throws, the object is in no container.
\<close>

function CreateIndex_loop ::
  "'d backend \<Rightarrow> string \<Rightarrow> int list \<Rightarrow> nat \<Rightarrow> nat \<Rightarrow> nat \<Rightarrow> nat list \<Rightarrow> state
     \<Rightarrow> error option \<times> nat list \<times> state" where
  "CreateIndex_loop lib spaceTypeCpp idsCpp numVectors dim i dataset st =
     (if i < numVectors then
        (if GetObjectArrayElement_throws lib i then
           (Some (External ''GetObjectArrayElement''), dataset, st)
         else if dim \<noteq> length (java_floats st ! i) then
           (Some (RuntimeError ''Dimension of vectors is inconsistent''), dataset, st)
         else
           (case GetFloatArrayElements lib i st of
              Inl e \<Rightarrow> (Some e, dataset, st)
            | Inr (floatArrayCpp, st1) \<Rightarrow>
                (case CreateIndex_encode spaceTypeCpp dim floatArrayCpp of
                   Inl e \<Rightarrow> (Some e, dataset, st1)
                 | Inr (encoded, numElems) \<Rightarrow>
                     (case new_Object lib (idsCpp ! i) (take numElems encoded)
                             (write_through lib i encoded st1) of
                        Inl e \<Rightarrow> (Some e, dataset, write_through lib i encoded st1)
                      | Inr (obj, st2) \<Rightarrow>
                          if push_back_throws lib i then
                            (Some (External ''push_back''), dataset, st2)
                          else
                            CreateIndex_loop lib spaceTypeCpp idsCpp numVectors dim (i + 1)
                              (dataset @ [obj])
                              (ReleaseFloatArrayElements st2 i encoded JNI_ABORT)))))
      else (None, dataset, st))"
  by pat_completeness auto
termination
  by (relation "measure (\<lambda>(lib, sp, ids, numVectors, dim, i, ds, st). numVectors - i)") auto

declare CreateIndex_loop.simps [simp del]

text \<open>The entries handed to the index library: id and payload of each dataset object.\<close>

definition dataset_entries :: "nat list \<Rightarrow> state \<Rightarrow> (int \<times> buffer) list" where
  "dataset_entries dataset st = map snd (filter (\<lambda>entry. fst entry \<in> set dataset) (objects st))"

text \<open>
  The body of the try block, lines 100 to 157. It returns, with the exception if there
  is one, the locals that the handler reads: `idsCpp` and `dataset`. The index object
  lives in a `unique_ptr` local to the block, so it is gone on every way out of it.
\<close>

definition CreateIndex_try ::
  "'d backend \<Rightarrow> string \<Rightarrow> string list \<Rightarrow> string \<Rightarrow> int list \<Rightarrow> nat \<Rightarrow> nat \<Rightarrow> state
     \<Rightarrow> error option \<times> int list pointer \<times> nat list \<times> state" where
  "CreateIndex_try lib spaceTypeCpp indexParameters indexPathCpp ids numVectors dim st =
     (if GetIntArrayElements_throws lib then
        (Some (External ''GetIntArrayElements''), Uninitialised, [], st)
      else
        (case CreateIndex_loop lib spaceTypeCpp ids numVectors dim 0 []
                (st\<lparr>pinned_ints := pinned_ints st + 1\<rparr>) of
           (Some e, dataset, st1) \<Rightarrow> (Some e, Pointer ids, dataset, st1)
         | (None, dataset, st1) \<Rightarrow>
             let st2 = ReleaseIntArrayElements st1 in
             if CreateMethod_throws lib then
               (Some (External ''CreateMethod''), Pointer ids, dataset, st2)
             else if index_CreateIndex_throws lib then
               (Some (External ''Index::CreateIndex''), Pointer ids, dataset, st2)
             else if SaveIndex_throws lib then
               (Some (External ''SaveIndex''), Pointer ids, dataset, st2)
             else
               (None, Pointer ids, dataset,
                delete_dataset dataset
                  (st2\<lparr>saved := saved st2 @
                          [(indexPathCpp, indexParameters, dataset_entries dataset st2)]\<rparr>))))"

text \<open>
  The catch handler, lines 158 to 165: delete the dataset, release the ids, rethrow.
  When the exception came from GetIntArrayElements itself, `idsCpp` was never assigned
  and passing it to ReleaseIntArrayElements has no defined behaviour; the ledger returned
  is then the one at that point, where no dataset entry and no float buffer exists yet.
\<close>

definition CreateIndex_catch ::
  "error \<Rightarrow> int list pointer \<Rightarrow> nat list \<Rightarrow> state \<Rightarrow> error option \<times> state" where
  "CreateIndex_catch e idsCpp dataset st =
     (case idsCpp of
        Uninitialised \<Rightarrow> (Some UndefinedBehaviour, delete_dataset dataset st)
      | Pointer ids \<Rightarrow> (Some e, ReleaseIntArrayElements (delete_dataset dataset st)))"

text \<open>
  Lines 89 to 166, entered once the space object exists. The space is owned by a
  `unique_ptr` of the function body and is destroyed however the function is left.
\<close>

definition CreateIndex_with_space ::
  "'d backend \<Rightarrow> string \<Rightarrow> string list \<Rightarrow> string \<Rightarrow> int list \<Rightarrow> buffer list \<Rightarrow> state
     \<Rightarrow> error option \<times> state" where
  "CreateIndex_with_space lib spaceTypeCpp indexParameters indexPathCpp ids vectors st =
     (let numVectors = length vectors; numIds = length ids in
      if numIds \<noteq> numVectors then
        (Some (RuntimeError ''Number of IDs does not match number of vectors''), st)
      else
        let dim = GetInnerDimensionOf2dJavaFloatArray vectors in
        (case CreateIndex_try lib spaceTypeCpp indexParameters indexPathCpp ids numVectors dim st of
           (None, idsCpp, dataset, st') \<Rightarrow> (None, st')
         | (Some e, idsCpp, dataset, st') \<Rightarrow> CreateIndex_catch e idsCpp dataset st'))"

definition CreateIndex ::
  "knn_jni \<Rightarrow> 'd backend \<Rightarrow> int list option \<Rightarrow> buffer list option \<Rightarrow> string option
     \<Rightarrow> jobject option \<Rightarrow> error option \<times> state" where
  "CreateIndex K lib idsJ vectorsJ indexPathJ parametersJ =
     (let st0 = initial (case vectorsJ of None \<Rightarrow> [] | Some vectors \<Rightarrow> vectors) in
      case idsJ of
        None \<Rightarrow> (Some (RuntimeError ''IDs cannot be null''), st0)
      | Some ids \<Rightarrow>
      (case vectorsJ of
        None \<Rightarrow> (Some (RuntimeError ''Vectors cannot be null''), st0)
      | Some vectors \<Rightarrow>
      (case indexPathJ of
        None \<Rightarrow> (Some (RuntimeError ''Index path cannot be null''), st0)
      | Some indexPathCpp \<Rightarrow>
      (case parametersJ of
        None \<Rightarrow> (Some (RuntimeError ''Parameters cannot be null''), st0)
      | Some parameters \<Rightarrow>
      (case ConvertJavaMapToCppMap parameters of
        Inl e \<Rightarrow> (Some e, st0)
      | Inr parametersCpp \<Rightarrow>
      (case CreateIndex_parameters K parametersCpp of
        Inl e \<Rightarrow> (Some e, st0)
      | Inr indexParameters \<Rightarrow>
      (case space_type_of K parametersCpp of
        Inl e \<Rightarrow> (Some e, st0)
      | Inr spaceTypeCpp \<Rightarrow>
          if CreateSpace_throws lib spaceTypeCpp then (Some (External ''CreateSpace''), st0)
          else
            (case CreateIndex_with_space lib spaceTypeCpp indexParameters indexPathCpp ids vectors
                    (st0\<lparr>spaces := spaces st0 + 1\<rparr>) of
               (r, st) \<Rightarrow> (r, st\<lparr>spaces := spaces st - 1\<rparr>)))))))))"

section \<open>LoadIndex\<close>

record Index =
  loaded_from :: "string option"
  query_time_params :: "string list"

record IndexWrapper =
  space :: string
  index :: Index

text \<open>
  Modelled from the spec: a handle owns a metric-space object and an index object
  constructed against it, and releasing a handle releases the index first and the space
  second (sections 3 and 4.3); the struct `IndexWrapper` is declared in the wrapper's
  header. Its constructor creates the space, then the index. When either creation throws,
  the members built so far are destroyed and the storage of the handle is returned
  before the exception leaves the `new` expression, so nothing stays allocated and no
  pointer is produced.
\<close>

definition new_IndexWrapper :: "'d backend \<Rightarrow> string \<Rightarrow> state \<Rightarrow> error + (IndexWrapper \<times> state)" where
  "new_IndexWrapper lib spaceType st =
     (if CreateSpace_throws lib spaceType then Inl (External ''CreateSpace'')
      else if CreateMethod_throws lib then Inl (External ''CreateMethod'')
      else Inr (\<lparr>space = spaceType, index = \<lparr>loaded_from = None, query_time_params = []\<rparr>\<rparr>,
                st\<lparr>spaces := spaces st + 1, indexes := indexes st + 1,
                   wrappers := wrappers st + 1\<rparr>))"

definition delete_IndexWrapper :: "state \<Rightarrow> state" where
  "delete_IndexWrapper st =
     st\<lparr>indexes := indexes st - 1, spaces := spaces st - 1, wrappers := wrappers st - 1\<rparr>"

text \<open>
  The local `indexWrapper` of line 197 is declared without an initialiser. It holds a
  pointer only after the assignment of line 199 has completed. The catch handler, lines
  202 to 205, is `delete indexWrapper; throw;`. Deleting through a pointer that was never
  assigned has no defined behaviour.
\<close>

definition LoadIndex_catch ::
  "IndexWrapper pointer \<Rightarrow> error \<Rightarrow> state \<Rightarrow> (error + IndexWrapper) \<times> state" where
  "LoadIndex_catch indexWrapper e st =
     (case indexWrapper of
        Uninitialised \<Rightarrow> (Inl UndefinedBehaviour, st)
      | Pointer w \<Rightarrow> (Inl e, delete_IndexWrapper st))"

text \<open>The try block, lines 198 to 201, with its handler.\<close>

definition LoadIndex_try ::
  "'d backend \<Rightarrow> string \<Rightarrow> string \<Rightarrow> string list \<Rightarrow> state \<Rightarrow> (error + IndexWrapper) \<times> state" where
  "LoadIndex_try lib spaceTypeCpp indexPathCpp queryParams st =
     (case new_IndexWrapper lib spaceTypeCpp st of
        Inl e \<Rightarrow> LoadIndex_catch Uninitialised e st
      | Inr (w, st1) \<Rightarrow>
          if index_LoadIndex_throws lib indexPathCpp then
            LoadIndex_catch (Pointer w) (External ''LoadIndex'') st1
          else if SetQueryTimeParams_throws lib then
            LoadIndex_catch (Pointer w) (External ''SetQueryTimeParams'') st1
          else
            (Inr (w\<lparr>index := \<lparr>loaded_from = Some indexPathCpp,
                                query_time_params = queryParams\<rparr>\<rparr>), st1))"

definition LoadIndex ::
  "knn_jni \<Rightarrow> 'd backend \<Rightarrow> string option \<Rightarrow> jobject option \<Rightarrow> (error + IndexWrapper) \<times> state" where
  "LoadIndex K lib indexPathJ parametersJ =
     (let st0 = initial [] in
      case indexPathJ of
        None \<Rightarrow> (Inl (RuntimeError ''Index path cannot be null''), st0)
      | Some indexPathCpp \<Rightarrow>
      (case parametersJ of
        None \<Rightarrow> (Inl (RuntimeError ''Parameters cannot be null''), st0)
      | Some parameters \<Rightarrow>
      (case ConvertJavaMapToCppMap parameters of
        Inl e \<Rightarrow> (Inl e, st0)
      | Inr parametersCpp \<Rightarrow>
      (case space_type_of K parametersCpp of
        Inl e \<Rightarrow> (Inl e, st0)
      | Inr spaceTypeCpp \<Rightarrow>
      (case optional_parameter parametersCpp ''efSearch'' ''efSearch'' [] of
        Inl e \<Rightarrow> (Inl e, st0)
      | Inr queryParams \<Rightarrow> LoadIndex_try lib spaceTypeCpp indexPathCpp queryParams st0)))))"

section \<open>The result queue\<close>

text \<open>
  Modelled from the spec: the search primitive returns a bounded max-priority structure
  ordered by distance, retaining the k best (lowest-distance) candidates seen; it is
  drained by reading the current maximum distance and popping, and each pop removes the
  current farthest remaining entry (section 4.4 and the glossary). The class
  `similarity::KNNQueue` belongs to the index library. The queue is the list of its
  entries, distance first, in no particular order; distances are compared with the order
  of their type.
\<close>

type_synonym 'd KNNQueue = "('d \<times> int) list"

fun top_entry :: "('d::linorder) KNNQueue \<Rightarrow> ('d \<times> int) option" where
  "top_entry [] = None"
| "top_entry (x # xs) =
     (case top_entry xs of
        None \<Rightarrow> Some x
      | Some y \<Rightarrow> if fst y \<le> fst x then Some x else Some y)"

definition TopDistance :: "('d::linorder) KNNQueue \<Rightarrow> 'd option" where
  "TopDistance q = map_option fst (top_entry q)"

definition Pop :: "('d::linorder) KNNQueue \<Rightarrow> (('d \<times> int) \<times> 'd KNNQueue) option" where
  "Pop q = (case top_entry q of None \<Rightarrow> None | Some t \<Rightarrow> Some (t, remove1 t q))"

definition Size :: "'d KNNQueue \<Rightarrow> nat" where
  "Size q = length q"

definition Push :: "nat \<Rightarrow> ('d::linorder) \<times> int \<Rightarrow> 'd KNNQueue \<Rightarrow> 'd KNNQueue" where
  "Push K e q =
     (if length q < K then e # q
      else (case top_entry q of
              None \<Rightarrow> q
            | Some t \<Rightarrow> if fst e < fst t then e # remove1 t q else q))"

definition Search :: "('d::linorder) backend \<Rightarrow> buffer \<Rightarrow> nat \<Rightarrow> error + 'd KNNQueue" where
  "Search lib query K =
     (if Search_throws lib then Inl (External ''Search'')
      else Inr (fold (Push K) (search_candidates lib query) []))"

section \<open>QueryIndex\<close>

text \<open>
  Modelled from the spec: the query is encoded using the handle's space type
  (section 4.4); the class of the space object, whose `StrDesc()` line 228 reads, belongs
  to the index library. The descriptor of a space is the space-type name it was created
  from.
\<close>

definition StrDesc :: "string \<Rightarrow> string" where
  "StrDesc spaceType = spaceType"

text \<open>
  The loop of lines 280 to 285. `results` is the Java array made by NewObjectArray with
  `resultSize` null slots; slot `i` receives the pair built from the `i`-th pop. Reading
  or popping the top of an empty queue is given no meaning; the loop runs `Size` times
  and never does so.
\<close>

function QueryIndex_drain ::
  "nat \<Rightarrow> nat \<Rightarrow> ('d::linorder) KNNQueue \<Rightarrow> (int \<times> 'd) option list
     \<Rightarrow> error + (int \<times> 'd) option list" where
  "QueryIndex_drain resultSize i neighbors results =
     (if i < resultSize then
        (case TopDistance neighbors of
           None \<Rightarrow> Inl UndefinedBehaviour
         | Some distance \<Rightarrow>
             (case Pop neighbors of
                None \<Rightarrow> Inl UndefinedBehaviour
              | Some (popped, rest) \<Rightarrow>
                  QueryIndex_drain resultSize (i + 1) rest
                    (results[i := Some (snd popped, distance)])))
      else Inr results)"
  by pat_completeness auto
termination
  by (relation "measure (\<lambda>(resultSize, i, q, rs). resultSize - i)") auto

declare QueryIndex_drain.simps [simp del]

text \<open>Lines 266 to 286: search, clone the result queue, drain it into the array.\<close>

definition QueryIndex_search ::
  "('d::linorder) backend \<Rightarrow> buffer \<Rightarrow> nat \<Rightarrow> error + (int \<times> 'd) option list" where
  "QueryIndex_search lib query kJ =
     (case Search lib query kJ of
        Inl e \<Rightarrow> Inl e
      | Inr neighbors \<Rightarrow>
          let resultSize = Size neighbors in
          QueryIndex_drain resultSize 0 neighbors (replicate resultSize None))"

text \<open>
  The whole operation. The query vector is Java array 0 of the call. `kJ` is a
  non-negative `jint`. The query object is owned by a `unique_ptr` and is destroyed on
  every way out once it exists.
\<close>

definition QueryIndex ::
  "('d::linorder) backend \<Rightarrow> IndexWrapper option \<Rightarrow> buffer option \<Rightarrow> nat
     \<Rightarrow> (error + (int \<times> 'd) option list) \<times> state" where
  "QueryIndex lib indexPointerJ queryVectorJ kJ =
     (let st0 = initial (case queryVectorJ of None \<Rightarrow> [] | Some v \<Rightarrow> [v]) in
      case queryVectorJ of
        None \<Rightarrow> (Inl (RuntimeError ''Query Vector cannot be null''), st0)
      | Some queryVector \<Rightarrow>
      (case indexPointerJ of
        None \<Rightarrow> (Inl (RuntimeError ''Invalid pointer to index''), st0)
      | Some indexWrapper \<Rightarrow>
          let dim = length queryVector in
          (case GetFloatArrayElements lib 0 st0 of
             Inl e \<Rightarrow> (Inl e, st0)
           | Inr (rawQueryvector, st1) \<Rightarrow>
               (case QueryIndex_encode (StrDesc (space indexWrapper)) dim rawQueryvector of
                  Inl e \<Rightarrow> (Inl e, st1)
                | Inr (encoded, numElems) \<Rightarrow>
                    (case new_Object lib (- 1) (take numElems encoded)
                            (write_through lib 0 encoded st1) of
                       Inl e \<Rightarrow>
                         (Inl e,
                          ReleaseFloatArrayElements (write_through lib 0 encoded st1) 0 encoded
                            JNI_ABORT)
                     | Inr (queryObject, st2) \<Rightarrow>
                         let st3 = ReleaseFloatArrayElements st2 0 encoded JNI_ABORT in
                         (QueryIndex_search lib (take numElems encoded) kJ,
                          delete_Object queryObject st3))))))"

section \<open>Notions used in the proofs\<close>

text \<open>
  The word that one round of the bit_jaccard loop leaves at position `i div 32`, and the
  invariant of that loop: before round `i`, the first `ceil(i/32)` words hold the bits of
  the inputs below `i` and nothing else, and the cells from `i` on are untouched.
\<close>

definition bitset_word :: "nat \<Rightarrow> buffer \<Rightarrow> 32 word" where
  "bitset_word i buf =
     (if i mod 32 = 0 then 0 else buf ! (i div 32)) OR
     (if float_ne_zero (buf ! i) then push_bit (i mod 32) 1 else 0)"

definition bitset_inv :: "buffer \<Rightarrow> nat \<Rightarrow> buffer \<Rightarrow> nat \<Rightarrow> bool" where
  "bitset_inv buf0 i buf n \<longleftrightarrow>
     length buf = length buf0 \<and> n = (i + 31) div 32 \<and>
     (\<forall>j. i \<le> j \<and> j < length buf0 \<longrightarrow> buf ! j = buf0 ! j) \<and>
     (\<forall>w b. w < n \<and> b < 32 \<longrightarrow>
        bit (buf ! w) b = (32 * w + b < i \<and> float_ne_zero (buf0 ! (32 * w + b))))"

text \<open>The indices of the nonzero entries of a vector, in ascending order.\<close>

definition nonzero_indices :: "buffer \<Rightarrow> nat list" where
  "nonzero_indices buf = filter (\<lambda>j. float_ne_zero (buf ! j)) [0..<length buf]"

text \<open>The distances of a result array, in array order.\<close>

fun result_distances :: "(int \<times> 'd) option list \<Rightarrow> 'd list" where
  "result_distances [] = []"
| "result_distances (None # rs) = result_distances rs"
| "result_distances (Some r # rs) = snd r # result_distances rs"

section \<open>Concrete inputs\<close>

text \<open>
  Parameter names as the host passes them, a library in which no call throws and every
  pinned array is handed out as a copy, the same library on a runtime that hands out the
  arrays' own storage, and two loaded handles. The library answers every search with
  three candidates at distances 0, 2 and 1 for the ids 1, 2 and 3, the squared distances
  of the build set [1,0], [0,1], [1,1] from the query [1,0].
\<close>

definition example_names :: knn_jni where
  "example_names =
     \<lparr>PARAMETERS = ''parameters'', EF_CONSTRUCTION = ''ef_construction'',
      EF_CONSTRUCTION_NMSLIB = ''efConstruction'', M = ''m'', M_NMSLIB = ''M'',
      INDEX_THREAD_QUANTITY = ''indexThreadQty'', SPACE_TYPE = ''spaceType'',
      L2 = ''l2'', L1 = ''l1'', LINF = ''linf'', COSINESIMIL = ''cosinesimil'',
      INNER_PRODUCT = ''innerproduct'', NEG_DOT_PRODUCT = ''negdotprod''\<rparr>"

definition reliable :: "int backend" where
  "reliable =
     \<lparr>CreateSpace_throws = (\<lambda>_. False), GetIntArrayElements_throws = False,
      GetObjectArrayElement_throws = (\<lambda>_. False), GetFloatArrayElements_throws = (\<lambda>_. False),
      hands_out_copy = (\<lambda>_. True), new_Object_throws = (\<lambda>_. False),
      push_back_throws = (\<lambda>_. False), CreateMethod_throws = False,
      index_CreateIndex_throws = False, SaveIndex_throws = False,
      index_LoadIndex_throws = (\<lambda>_. False), SetQueryTimeParams_throws = False,
      Search_throws = False, search_candidates = (\<lambda>_. [(0, 1), (2, 2), (1, 3)])\<rparr>"


definition second_push_back_fails :: "int backend" where
  "second_push_back_fails = reliable\<lparr>push_back_throws := (\<lambda>i. i = 1)\<rparr>"

definition l2_handle :: IndexWrapper where
  "l2_handle =
     \<lparr>space = ''l2'', index = \<lparr>loaded_from = Some ''/tmp/index'', query_time_params = []\<rparr>\<rparr>"

definition bit_jaccard_handle :: IndexWrapper where
  "bit_jaccard_handle =
     \<lparr>space = ''bit_jaccard'',
      index = \<lparr>loaded_from = Some ''/tmp/index'', query_time_params = []\<rparr>\<rparr>"

section \<open>Arithmetic of word and bit positions\<close>

lemma and_31_mod: "(i::nat) AND 31 = i mod 32"
proof -
  have "i AND mask 5 = take_bit 5 i" by (simp add: take_bit_eq_mask)
  then show ?thesis by (simp add: take_bit_eq_mod mask_eq_exp_minus_1)
qed

lemma split32:
  fixes i :: nat
  obtains q r where "i = 32 * q + r" "r < 32" "i div 32 = q" "i mod 32 = r"
proof
  show "i = 32 * (i div 32) + i mod 32" by simp
  show "i mod 32 < 32" by simp
qed simp_all

lemma ceil32_aligned: "(i::nat) mod 32 = 0 \<Longrightarrow> (i + 31) div 32 = i div 32"
proof -
  assume a: "i mod 32 = 0"
  obtain q r where h: "i = 32 * q + r" "r < 32" "i div 32 = q" "i mod 32 = r" by (rule split32)
  have "(i + 31) div 32 = q" by (rule div_nat_eqI) (use h a in simp_all)
  then show ?thesis using h by simp
qed

lemma ceil32_unaligned: "(i::nat) mod 32 \<noteq> 0 \<Longrightarrow> (i + 31) div 32 = i div 32 + 1"
proof -
  assume a: "i mod 32 \<noteq> 0"
  obtain q r where h: "i = 32 * q + r" "r < 32" "i div 32 = q" "i mod 32 = r" by (rule split32)
  have "(i + 31) div 32 = q + 1" by (rule div_nat_eqI) (use h a in simp_all)
  then show ?thesis using h by simp
qed

lemma ceil32_Suc: "((i::nat) + 1 + 31) div 32 = i div 32 + 1"
  by simp

lemma word_index_lt: "(w::nat) < i div 32 \<Longrightarrow> b < 32 \<Longrightarrow> 32 * w + b < i"
proof -
  assume a: "w < i div 32" "b < 32"
  obtain q r where h: "i = 32 * q + r" "r < 32" "i div 32 = q" "i mod 32 = r" by (rule split32)
  have "32 * w + b < 32 * (w + 1)" using a by simp
  also have "\<dots> \<le> 32 * q" using a h by simp
  also have "\<dots> \<le> i" using h by simp
  finally show ?thesis .
qed

lemma word_index_ne: "i + 1 \<le> (j::nat) \<Longrightarrow> i div 32 \<noteq> j"
proof -
  assume a: "i + 1 \<le> j"
  have "i div 32 \<le> i" by (rule div_le_dividend)
  then show ?thesis using a by simp
qed

lemma bit_index_split:
  "(32 * ((i::nat) div 32) + b < i + 1) = (32 * (i div 32) + b < i \<or> b = i mod 32)"
proof -
  obtain q r where h: "i = 32 * q + r" "r < 32" "i div 32 = q" "i mod 32 = r" by (rule split32)
  have "(32 * q + b < 32 * q + r + 1) = (32 * q + b < 32 * q + r \<or> b = r)" by auto
  then show ?thesis using h by simp
qed

lemma ceil32_le: "2 \<le> (d::nat) \<Longrightarrow> (d + 31) div 32 + 1 \<le> d"
proof -
  assume a: "2 \<le> d"
  obtain q r where h: "d = 32 * q + r" "r < 32" "d div 32 = q" "d mod 32 = r" by (rule split32)
  show ?thesis
  proof (cases "r = 0")
    case True
    then have "(d + 31) div 32 = q" using ceil32_aligned[of d] h by simp
    moreover have "1 \<le> q" using True h a by simp
    ultimately show ?thesis using h by simp
  next
    case False
    then have "(d + 31) div 32 = q + 1" using ceil32_unaligned[of d] h by simp
    moreover have "q = 0 \<Longrightarrow> 2 \<le> r" using h a by simp
    ultimately show ?thesis using h False by (cases "q = 0") simp_all
  qed
qed


section \<open>The bit_jaccard loop\<close>

lemma CreateIndex_bitset_step_eq:
  assumes "i < length buf"
  shows "CreateIndex_bitset_step i buf n =
           Inr (buf[i div 32 := bitset_word i buf], if i mod 32 = 0 then n + 1 else n)"
proof -
  have w: "i div 32 < length buf" using assms by (rule le_less_trans[OF div_le_dividend])
  show ?thesis
    using assms w
    by (simp add: CreateIndex_bitset_step_def load_def store_def and_31_mod bitset_word_def Let_def)
qed

lemma bit_bitset_word:
  assumes "b < 32"
  shows "bit (bitset_word i buf) b =
           ((i mod 32 \<noteq> 0 \<and> bit (buf ! (i div 32)) b) \<or> (float_ne_zero (buf ! i) \<and> b = i mod 32))"
  using assms by (auto simp add: bitset_word_def bit_or_iff bit_push_bit_iff bit_1_iff bit_exp_iff)

lemma bitset_inv_step:
  assumes inv: "bitset_inv buf0 i buf n" and lt: "i < length buf0"
  shows "bitset_inv buf0 (i + 1) (buf[i div 32 := bitset_word i buf])
           (if i mod 32 = 0 then n + 1 else n)"
proof -
  let ?w0 = "i div 32" and ?s = "i mod 32"
  let ?b2 = "buf[i div 32 := bitset_word i buf]"
  let ?n1 = "if i mod 32 = 0 then n + 1 else n"
  from inv have len: "length buf = length buf0" and n: "n = (i + 31) div 32"
    and orig: "\<And>j. i \<le> j \<Longrightarrow> j < length buf0 \<Longrightarrow> buf ! j = buf0 ! j"
    and bits: "\<And>w b. w < n \<Longrightarrow> b < 32 \<Longrightarrow>
        bit (buf ! w) b = (32 * w + b < i \<and> float_ne_zero (buf0 ! (32 * w + b)))"
    by (simp_all add: bitset_inv_def)
  have w0: "?w0 < length buf" using lt len by (simp add: le_less_trans[OF div_le_dividend])
  have n1': "?n1 = ?w0 + 1"
    using n ceil32_aligned[of i] ceil32_unaligned[of i] by (cases "?s = 0") simp_all
  have n1: "?n1 = (i + 1 + 31) div 32" unfolding n1' by simp
  have elem: "buf ! i = buf0 ! i" using orig[of i] lt by simp
  have eq: "32 * ?w0 + ?s = i" by simp
  have o2: "?b2 ! j = buf0 ! j" if "i + 1 \<le> j" "j < length buf0" for j
  proof -
    have "?w0 \<noteq> j" using that(1) by (rule word_index_ne)
    then show ?thesis using that orig[of j] by simp
  qed
  have b2: "bit (?b2 ! w) b = (32 * w + b < i + 1 \<and> float_ne_zero (buf0 ! (32 * w + b)))"
    if wn1: "w < ?n1" and b32: "b < 32" for w b
  proof (cases "w = ?w0")
    case False
    then have wl: "w < ?w0" using wn1 unfolding n1' by simp
    have wn: "w < n"
      using wl n ceil32_aligned[of i] ceil32_unaligned[of i] by (cases "?s = 0") simp_all
    have "32 * w + b < i" using wl b32 by (rule word_index_lt)
    then have "(32 * w + b < i + 1) = (32 * w + b < i)" by simp
    moreover have "?b2 ! w = buf ! w" using False by simp
    ultimately show ?thesis using bits[OF wn b32] by simp
  next
    case True
    have val: "?b2 ! ?w0 = bitset_word i buf" using w0 by simp
    show ?thesis
    proof (cases "?s = 0")
      case s0: True
      have i0: "32 * ?w0 = i" using eq s0 by simp
      have "bit (bitset_word i buf) b = (float_ne_zero (buf0 ! i) \<and> b = 0)"
        using s0 elem b32 by (simp add: bit_bitset_word)
      moreover have "(32 * ?w0 + b < i + 1 \<and> float_ne_zero (buf0 ! (32 * ?w0 + b)))
                   = (float_ne_zero (buf0 ! i) \<and> b = 0)"
        unfolding i0 by auto
      ultimately show ?thesis unfolding True val by simp
    next
      case s1: False
      have wn: "?w0 < n" using n ceil32_unaligned[OF s1] by simp
      have old: "bit (buf ! ?w0) b = (32 * ?w0 + b < i \<and> float_ne_zero (buf0 ! (32 * ?w0 + b)))"
        by (rule bits[OF wn b32])
      have new: "bit (bitset_word i buf) b =
                   (bit (buf ! ?w0) b \<or> (float_ne_zero (buf0 ! i) \<and> b = ?s))"
        using s1 elem b32 by (simp add: bit_bitset_word)
      have at: "b = ?s \<Longrightarrow> 32 * ?w0 + b = i" by simp
      have notlt: "b = ?s \<Longrightarrow> \<not> 32 * ?w0 + b < i" by simp
      have core: "(32 * ?w0 + b < i \<and> float_ne_zero (buf0 ! (32 * ?w0 + b)) \<or>
                   float_ne_zero (buf0 ! i) \<and> b = ?s) =
                  ((32 * ?w0 + b < i \<or> b = ?s) \<and> float_ne_zero (buf0 ! (32 * ?w0 + b)))"
      proof (cases "b = ?s")
        case True
        then show ?thesis using at notlt by simp
      next
        case False
        then show ?thesis by simp
      qed
      show ?thesis unfolding True val new old bit_index_split[of i b] by (rule core)
    qed
  qed
  show ?thesis
    unfolding bitset_inv_def
  proof (intro conjI allI impI)
    show "length ?b2 = length buf0" using len by simp
    show "?n1 = (i + 1 + 31) div 32" by (rule n1)
    show "?b2 ! j = buf0 ! j" if "i + 1 \<le> j \<and> j < length buf0" for j
      using that o2 by blast
    show "bit (?b2 ! w) b = (32 * w + b < i + 1 \<and> float_ne_zero (buf0 ! (32 * w + b)))"
      if "w < ?n1 \<and> b < 32" for w b
      using that b2 by blast
  qed
qed

lemma CreateIndex_bitset_loop_inv:
  "bitset_inv buf0 i buf n \<Longrightarrow> i \<le> dim \<Longrightarrow> length buf0 = dim \<Longrightarrow>
   \<exists>buf'. CreateIndex_bitset_loop dim i buf n = Inr (buf', (dim + 31) div 32)
         \<and> bitset_inv buf0 dim buf' ((dim + 31) div 32)"
proof (induction dim i buf n rule: CreateIndex_bitset_loop.induct)
  case (1 dim i buf n)
  show ?case
  proof (cases "i < dim")
    case False
    with "1.prems" have "i = dim" by simp
    moreover have "n = (dim + 31) div 32" using "1.prems"(1) \<open>i = dim\<close> by (simp add: bitset_inv_def)
    ultimately show ?thesis using "1.prems"(1) by (subst CreateIndex_bitset_loop.simps) simp
  next
    case True
    have len: "length buf = length buf0" using "1.prems" by (simp add: bitset_inv_def)
    have st: "CreateIndex_bitset_step i buf n =
           Inr (buf[i div 32 := bitset_word i buf], if i mod 32 = 0 then n + 1 else n)"
      using True "1.prems" len by (intro CreateIndex_bitset_step_eq) simp
    have inv': "bitset_inv buf0 (i + 1) (buf[i div 32 := bitset_word i buf])
           (if i mod 32 = 0 then n + 1 else n)"
      using True "1.prems" by (intro bitset_inv_step) auto
    from "1.IH"[OF True st refl inv'] True "1.prems"
    obtain buf' where
      "CreateIndex_bitset_loop dim (i + 1) (buf[i div 32 := bitset_word i buf])
          (if i mod 32 = 0 then n + 1 else n) = Inr (buf', (dim + 31) div 32)"
      "bitset_inv buf0 dim buf' ((dim + 31) div 32)"
      by auto
    then show ?thesis using True st
      by (subst CreateIndex_bitset_loop.simps) simp
  qed
qed

lemma bitset_inv_init: "bitset_inv buf 0 buf 0"
  by (simp add: bitset_inv_def)

lemma CreateIndex_encode_bit_jaccard:
  assumes "length buf = dim" "2 \<le> dim"
  shows "\<exists>out. CreateIndex_encode ''bit_jaccard'' dim buf = Inr (out, (dim + 31) div 32 + 1)
       \<and> length out = dim
       \<and> (dim + 31) div 32 + 1 \<le> dim
       \<and> out ! ((dim + 31) div 32) = word_of_nat dim
       \<and> (\<forall>w b. w < (dim + 31) div 32 \<and> b < 32 \<longrightarrow>
            bit (out ! w) b = (32 * w + b < dim \<and> float_ne_zero (buf ! (32 * w + b))))"
proof -
  define N where "N = (dim + 31) div 32"
  have "\<exists>buf'. CreateIndex_bitset_loop dim 0 buf 0 = Inr (buf', N) \<and> bitset_inv buf dim buf' N"
    unfolding N_def by (rule CreateIndex_bitset_loop_inv[OF bitset_inv_init _ assms(1)]) simp
  then obtain buf' where l: "CreateIndex_bitset_loop dim 0 buf 0 = Inr (buf', N)"
    and inv: "bitset_inv buf dim buf' N"
    by blast
  have n: "N + 1 \<le> dim" unfolding N_def using assms(2) by (rule ceil32_le)
  have len: "length buf' = dim" using inv assms by (simp add: bitset_inv_def)
  have d2: "\<not> dim < 2" using assms(2) by simp
  have st: "store buf' N (word_of_nat dim) = Inr (buf'[N := word_of_nat dim])"
    using n len by (simp add: store_def)
  have enc: "CreateIndex_encode ''bit_jaccard'' dim buf = Inr (buf'[N := word_of_nat dim], N + 1)"
    unfolding CreateIndex_encode_def using d2 by (simp add: l st)
  have bits: "bit (buf'[N := word_of_nat dim] ! w) b =
                (32 * w + b < dim \<and> float_ne_zero (buf ! (32 * w + b)))"
    if "w < N \<and> b < 32" for w b
    using inv that by (simp add: bitset_inv_def)
  have last: "buf'[N := word_of_nat dim] ! N = word_of_nat dim" using n len by simp
  show ?thesis
    unfolding N_def[symmetric]
    using enc len n last bits by (intro exI[of _ "buf'[N := word_of_nat dim]"]) simp
qed



section \<open>The jaccard_sparse loop\<close>

lemma sparse_filter_cong:
  assumes "n \<le> i" "i < length buf"
  shows "filter (\<lambda>j. float_ne_zero (buf[n := v] ! j)) [Suc i..<dim]
       = filter (\<lambda>j. float_ne_zero (buf ! j)) [Suc i..<dim]"
  using assms by (intro filter_cong) auto

lemma CreateIndex_sparse_loop_correct:
  "length buf = dim \<Longrightarrow> n \<le> i \<Longrightarrow> i \<le> dim \<Longrightarrow>
   \<exists>buf'. CreateIndex_sparse_loop dim i buf n =
            Inr (buf', n + length (filter (\<lambda>j. float_ne_zero (buf ! j)) [i..<dim]))
        \<and> length buf' = dim
        \<and> take (n + length (filter (\<lambda>j. float_ne_zero (buf ! j)) [i..<dim])) buf' =
            take n buf @ map word_of_nat (filter (\<lambda>j. float_ne_zero (buf ! j)) [i..<dim])"
proof (induction dim i buf n rule: CreateIndex_sparse_loop.induct)
  case (1 dim i buf n)
  show ?case
  proof (cases "i < dim")
    case False
    with "1.prems" show ?thesis by (subst CreateIndex_sparse_loop.simps) simp
  next
    case True
    note lt = True
    have ld: "load buf i = Inr (buf ! i)" using lt "1.prems" by (simp add: load_def)
    have upt: "[i..<dim] = i # [Suc i..<dim]" using lt by (simp add: upt_conv_Cons)
    show ?thesis
    proof (cases "float_ne_zero (buf ! i)")
      case False
      from "1.IH"(2)[OF lt ld False] "1.prems" lt
      obtain buf' where
        "CreateIndex_sparse_loop dim (i + 1) buf n =
            Inr (buf', n + length (filter (\<lambda>j. float_ne_zero (buf ! j)) [i + 1..<dim]))"
        "length buf' = dim"
        "take (n + length (filter (\<lambda>j. float_ne_zero (buf ! j)) [i + 1..<dim])) buf' =
            take n buf @ map word_of_nat (filter (\<lambda>j. float_ne_zero (buf ! j)) [i + 1..<dim])"
        by auto
      then show ?thesis using lt ld False upt
        by (subst CreateIndex_sparse_loop.simps) simp
    next
      case nz: True
      let ?b = "buf[n := word_of_nat i]"
      have st: "store buf n (word_of_nat i) = Inr ?b"
        using lt "1.prems" by (simp add: store_def)
      have fc: "filter (\<lambda>j. float_ne_zero (?b ! j)) [Suc i..<dim]
              = filter (\<lambda>j. float_ne_zero (buf ! j)) [Suc i..<dim]"
        using "1.prems" lt by (intro sparse_filter_cong) auto
      have tk: "take (Suc n) ?b = take n buf @ [word_of_nat i]"
        using "1.prems" lt by (simp add: take_Suc_conv_app_nth)
      from "1.IH"(1)[OF lt ld nz st] "1.prems" lt
      obtain buf' where r:
        "CreateIndex_sparse_loop dim (i + 1) ?b (n + 1) =
            Inr (buf', n + 1 + length (filter (\<lambda>j. float_ne_zero (?b ! j)) [i + 1..<dim]))"
        "length buf' = dim"
        "take (n + 1 + length (filter (\<lambda>j. float_ne_zero (?b ! j)) [i + 1..<dim])) buf' =
            take (n + 1) ?b @ map word_of_nat (filter (\<lambda>j. float_ne_zero (?b ! j)) [i + 1..<dim])"
        by auto
      show ?thesis using r lt ld nz st upt fc tk
        by (subst CreateIndex_sparse_loop.simps) simp
    qed
  qed
qed


section \<open>The two copies of the encoder\<close>

lemma QueryIndex_sparse_loop_eq:
  "QueryIndex_sparse_loop dim i buf n = CreateIndex_sparse_loop dim i buf n"
proof (induction dim i buf n rule: CreateIndex_sparse_loop.induct)
  case (1 dim i buf n)
  show ?case
    using "1.IH"
    by (subst QueryIndex_sparse_loop.simps, subst CreateIndex_sparse_loop.simps)
       (auto split: sum.splits)
qed

lemma QueryIndex_bitset_step_eq:
  "QueryIndex_bitset_step i buf n = CreateIndex_bitset_step i buf n"
  by (simp add: QueryIndex_bitset_step_def CreateIndex_bitset_step_def)

lemma QueryIndex_bitset_loop_eq:
  "QueryIndex_bitset_loop dim i buf n = CreateIndex_bitset_loop dim i buf n"
proof (induction dim i buf n rule: CreateIndex_bitset_loop.induct)
  case (1 dim i buf n)
  show ?case
    using "1.IH"
    by (subst QueryIndex_bitset_loop.simps, subst CreateIndex_bitset_loop.simps)
       (auto simp add: QueryIndex_bitset_step_eq split: sum.splits)
qed

lemma QueryIndex_encode_eq:
  "QueryIndex_encode s dim buf = CreateIndex_encode s dim buf"
  by (simp add: QueryIndex_encode_def CreateIndex_encode_def
        QueryIndex_sparse_loop_eq QueryIndex_bitset_loop_eq)

section \<open>The encodings\<close>

lemma sint_index: "i < 2 ^ 31 \<Longrightarrow> sint (word_of_nat i :: 32 word) = int i"
  by (simp add: signed_of_nat signed_take_bit_int_eq_self)

lemma unat_dimension: "d < 2 ^ 32 \<Longrightarrow> unat (word_of_nat d :: 32 word) = d"
  by (simp add: unat_of_nat)

lemma nonzero_indices_bound: "i \<in> set (nonzero_indices buf) \<Longrightarrow> i < length buf"
  by (simp add: nonzero_indices_def)

lemma length_nonzero_indices: "length (nonzero_indices buf) \<le> length buf"
proof -
  have "length (nonzero_indices buf) \<le> length [0..<length buf]"
    unfolding nonzero_indices_def by (rule length_filter_le)
  then show ?thesis by simp
qed

lemma CreateIndex_encode_jaccard_sparse:
  assumes "length buf = dim"
  shows "\<exists>out. CreateIndex_encode ''jaccard_sparse'' dim buf = Inr (out, length (nonzero_indices buf))
             \<and> length out = dim
             \<and> take (length (nonzero_indices buf)) out = map word_of_nat (nonzero_indices buf)"
proof -
  have "\<exists>buf'. CreateIndex_sparse_loop dim 0 buf 0 =
            Inr (buf', 0 + length (filter (\<lambda>j. float_ne_zero (buf ! j)) [0..<dim]))
        \<and> length buf' = dim
        \<and> take (0 + length (filter (\<lambda>j. float_ne_zero (buf ! j)) [0..<dim])) buf' =
            take 0 buf @ map word_of_nat (filter (\<lambda>j. float_ne_zero (buf ! j)) [0..<dim])"
    by (rule CreateIndex_sparse_loop_correct[OF assms]) simp_all
  then show ?thesis
    unfolding nonzero_indices_def assms by (simp add: CreateIndex_encode_def)
qed

text \<open>
  Concrete vectors: 1.0, 0.0, -0.0 and a NaN are the patterns 0x3F800000, 0, 0x80000000
  and 0x7FC00000.
\<close>

lemma ex_vec_nz: "nonzero_indices [0x3F800000, 0, 0x80000000, 0x7FC00000] = [0, 3]"
  by (simp add: nonzero_indices_def float_ne_zero_def upt_rec)

text \<open>
  C6. For the jaccard_sparse space type, encoding a vector of dimension D, at build time
  and at query time alike, succeeds and leaves at the front of the buffer exactly the
  indices at which the input float is nonzero, as 32-bit integers in ascending order; the
  encoded length is the number of nonzero entries, which may be zero and is at most D.
  D is a Java array length, hence below 2^31.
\<close>

theorem jaccard_sparse_encoding:
  assumes "length buf = dim" and "dim < 2 ^ 31"
  shows "(\<exists>out. CreateIndex_encode ''jaccard_sparse'' dim buf = Inr (out, length (nonzero_indices buf))
              \<and> QueryIndex_encode ''jaccard_sparse'' dim buf = Inr (out, length (nonzero_indices buf))
              \<and> map sint (take (length (nonzero_indices buf)) out) = map int (nonzero_indices buf))
       \<and> set (nonzero_indices buf) = {i. i < dim \<and> float_ne_zero (buf ! i)}
       \<and> sorted (nonzero_indices buf) \<and> distinct (nonzero_indices buf)
       \<and> length (nonzero_indices buf) \<le> dim"
proof -
  from CreateIndex_encode_jaccard_sparse[OF assms(1)]
  obtain out where enc: "CreateIndex_encode ''jaccard_sparse'' dim buf = Inr (out, length (nonzero_indices buf))"
    and tk: "take (length (nonzero_indices buf)) out = map word_of_nat (nonzero_indices buf)"
    by blast
  have "map sint (map word_of_nat (nonzero_indices buf) :: 32 word list) = map int (nonzero_indices buf)"
  proof -
    have "sint (word_of_nat i :: 32 word) = int i" if "i \<in> set (nonzero_indices buf)" for i
    proof -
      have "i < 2 ^ 31" using nonzero_indices_bound[OF that] assms by simp
      then show ?thesis by (rule sint_index)
    qed
    then show ?thesis by simp
  qed
  then have ints: "map sint (take (length (nonzero_indices buf)) out) = map int (nonzero_indices buf)"
    by (simp only: tk)
  have first: "\<exists>out. CreateIndex_encode ''jaccard_sparse'' dim buf = Inr (out, length (nonzero_indices buf))
              \<and> QueryIndex_encode ''jaccard_sparse'' dim buf = Inr (out, length (nonzero_indices buf))
              \<and> map sint (take (length (nonzero_indices buf)) out) = map int (nonzero_indices buf)"
    using enc ints by (intro exI[of _ out]) (simp add: QueryIndex_encode_eq)
  have s: "set (nonzero_indices buf) = {i. i < dim \<and> float_ne_zero (buf ! i)}"
    using assms(1) by (auto simp add: nonzero_indices_def)
  have "sorted (nonzero_indices buf)" "distinct (nonzero_indices buf)"
    by (simp_all add: nonzero_indices_def sorted_wrt_filter)
  moreover have "length (nonzero_indices buf) \<le> dim"
    using length_nonzero_indices[of buf] assms(1) by simp
  ultimately show ?thesis using first s by blast
qed

theorem jaccard_sparse_encoding_witness:
  "length [0x3F800000, 0, 0x80000000, 0x7FC00000 :: 32 word] = 4 \<and> (4 :: nat) < 2 ^ 31 \<and>
   (\<exists>out. CreateIndex_encode ''jaccard_sparse'' 4 [0x3F800000, 0, 0x80000000, 0x7FC00000] = Inr (out, 2)
         \<and> QueryIndex_encode ''jaccard_sparse'' 4 [0x3F800000, 0, 0x80000000, 0x7FC00000] = Inr (out, 2)
         \<and> map sint (take 2 out) = map int [0, 3])"
proof -
  have h1: "length [0x3F800000, 0, 0x80000000, 0x7FC00000 :: 32 word] = 4" by simp
  have h2: "(4 :: nat) < 2 ^ 31" by simp
  have len2: "length [0 :: nat, 3] = 2" by simp
  have t: "\<exists>out. CreateIndex_encode ''jaccard_sparse'' 4 [0x3F800000, 0, 0x80000000, 0x7FC00000] = Inr (out, 2)
         \<and> QueryIndex_encode ''jaccard_sparse'' 4 [0x3F800000, 0, 0x80000000, 0x7FC00000] = Inr (out, 2)
         \<and> map sint (take 2 out) = map int [0, 3]"
    using jaccard_sparse_encoding[OF h1 h2] unfolding ex_vec_nz len2 by blast
  show ?thesis by (intro conjI h1 h2 t)
qed

text \<open>
  C5. For the bit_jaccard space type the encoding fails when D < 2. For D >= 2, at
  build time and at query time alike, it yields ceil(D/32) packed words followed by one
  word holding D, ceil(D/32) + 1 words in all; bit i of the packed words, counted from
  the least significant bit of word 0, is set exactly when input i is nonzero, and the
  bits of the last packed word past D are clear.
\<close>

theorem bit_jaccard_encoding:
  assumes "length buf = dim"
  shows "(dim < 2 \<longrightarrow>
            CreateIndex_encode ''bit_jaccard'' dim buf =
              Inl (RuntimeError ''Dimension of vectors for bit_jaccard must be > 1!'') \<and>
            QueryIndex_encode ''bit_jaccard'' dim buf =
              Inl (RuntimeError ''Dimension of vectors for bit_jaccard must be > 1!'')) \<and>
         (2 \<le> dim \<longrightarrow>
            (\<exists>out. CreateIndex_encode ''bit_jaccard'' dim buf = Inr (out, (dim + 31) div 32 + 1) \<and>
                   QueryIndex_encode ''bit_jaccard'' dim buf = Inr (out, (dim + 31) div 32 + 1) \<and>
                   (\<forall>i<dim. bit (out ! (i div 32)) (i mod 32) = float_ne_zero (buf ! i)) \<and>
                   (\<forall>w b. w < (dim + 31) div 32 \<and> b < 32 \<and> dim \<le> 32 * w + b \<longrightarrow> \<not> bit (out ! w) b) \<and>
                   out ! ((dim + 31) div 32) = word_of_nat dim \<and>
                   (dim < 2 ^ 32 \<longrightarrow> unat (out ! ((dim + 31) div 32)) = dim)))"
proof (intro conjI impI)
  assume "dim < 2"
  then show "CreateIndex_encode ''bit_jaccard'' dim buf =
              Inl (RuntimeError ''Dimension of vectors for bit_jaccard must be > 1!'')"
    by (simp add: CreateIndex_encode_def)
  then show "QueryIndex_encode ''bit_jaccard'' dim buf =
              Inl (RuntimeError ''Dimension of vectors for bit_jaccard must be > 1!'')"
    by (simp add: QueryIndex_encode_eq)
next
  assume d2: "2 \<le> dim"
  define N where "N = (dim + 31) div 32"
  from CreateIndex_encode_bit_jaccard[OF assms d2]
  obtain out where enc: "CreateIndex_encode ''bit_jaccard'' dim buf = Inr (out, N + 1)"
    and last: "out ! N = word_of_nat dim"
    and bits: "\<And>w b. w < N \<Longrightarrow> b < 32 \<Longrightarrow>
            bit (out ! w) b = (32 * w + b < dim \<and> float_ne_zero (buf ! (32 * w + b)))"
    unfolding N_def by blast
  have each: "bit (out ! (i div 32)) (i mod 32) = float_ne_zero (buf ! i)" if "i < dim" for i
  proof -
    have "i div 32 < N"
    proof -
      have "i div 32 \<le> (dim - 1) div 32" using that by (intro div_le_mono) simp
      also have "(dim - 1) div 32 < (dim - 1 + 32) div 32" by simp
      also have "dim - 1 + 32 = dim + 31" using that by simp
      finally show ?thesis unfolding N_def .
    qed
    then show ?thesis using bits[of "i div 32" "i mod 32"] that by simp
  qed
  have pad: "\<not> bit (out ! w) b" if "w < N \<and> b < 32 \<and> dim \<le> 32 * w + b" for w b
    using bits[of w b] that by simp
  have val: "unat (out ! N) = dim" if "dim < 2 ^ 32"
    unfolding last using that by (rule unat_dimension)
  show "\<exists>out. CreateIndex_encode ''bit_jaccard'' dim buf = Inr (out, (dim + 31) div 32 + 1) \<and>
                   QueryIndex_encode ''bit_jaccard'' dim buf = Inr (out, (dim + 31) div 32 + 1) \<and>
                   (\<forall>i<dim. bit (out ! (i div 32)) (i mod 32) = float_ne_zero (buf ! i)) \<and>
                   (\<forall>w b. w < (dim + 31) div 32 \<and> b < 32 \<and> dim \<le> 32 * w + b \<longrightarrow> \<not> bit (out ! w) b) \<and>
                   out ! ((dim + 31) div 32) = word_of_nat dim \<and>
                   (dim < 2 ^ 32 \<longrightarrow> unat (out ! ((dim + 31) div 32)) = dim)"
    unfolding N_def[symmetric]
    using enc last each pad val by (intro exI[of _ out]) (simp add: QueryIndex_encode_eq)
qed

theorem bit_jaccard_encoding_witness:
  "length [0x3F800000, 0, 0x7FC00000 :: 32 word] = 3 \<and>
   (\<exists>out. CreateIndex_encode ''bit_jaccard'' 3 [0x3F800000, 0, 0x7FC00000] = Inr (out, 2)
         \<and> QueryIndex_encode ''bit_jaccard'' 3 [0x3F800000, 0, 0x7FC00000] = Inr (out, 2)
         \<and> bit (out ! 0) 0 \<and> \<not> bit (out ! 0) 1 \<and> bit (out ! 0) 2 \<and> \<not> bit (out ! 0) 3
         \<and> out ! 1 = 3) \<and>
   length [0x3F800000 :: 32 word] = 1 \<and>
   CreateIndex_encode ''bit_jaccard'' 1 [0x3F800000] =
     Inl (RuntimeError ''Dimension of vectors for bit_jaccard must be > 1!'')"
proof -
  have a: "\<exists>out. CreateIndex_encode ''bit_jaccard'' 3 [0x3F800000, 0, 0x7FC00000] = Inr (out, 2)
         \<and> QueryIndex_encode ''bit_jaccard'' 3 [0x3F800000, 0, 0x7FC00000] = Inr (out, 2)
         \<and> bit (out ! 0) 0 \<and> \<not> bit (out ! 0) 1 \<and> bit (out ! 0) 2 \<and> \<not> bit (out ! 0) 3
         \<and> out ! 1 = 3"
  proof -
    from bit_jaccard_encoding[of "[0x3F800000, 0, 0x7FC00000]" 3]
    obtain out where
      e: "CreateIndex_encode ''bit_jaccard'' 3 [0x3F800000, 0, 0x7FC00000] = Inr (out, 2)"
         "QueryIndex_encode ''bit_jaccard'' 3 [0x3F800000, 0, 0x7FC00000] = Inr (out, 2)"
      and b: "\<forall>i<3. bit (out ! (i div 32)) (i mod 32) = float_ne_zero ([0x3F800000, 0, 0x7FC00000] ! i)"
      and p: "\<forall>w b. w < 1 \<and> b < 32 \<and> 3 \<le> 32 * w + b \<longrightarrow> \<not> bit (out ! w) b"
      and l: "out ! 1 = 3"
      by auto
    have "bit (out ! 0) 0" using b[rule_format, of 0] by (simp add: float_ne_zero_def)
    moreover have "\<not> bit (out ! 0) 1" using b[rule_format, of 1] by (simp add: float_ne_zero_def)
    moreover have "bit (out ! 0) 2" using b[rule_format, of 2] by (simp add: float_ne_zero_def)
    moreover have "\<not> bit (out ! 0) 3" using p[rule_format, of 0 3] by simp
    ultimately show ?thesis using e l by blast
  qed
  have c: "CreateIndex_encode ''bit_jaccard'' 1 [0x3F800000] =
     Inl (RuntimeError ''Dimension of vectors for bit_jaccard must be > 1!'')"
    using bit_jaccard_encoding[of "[0x3F800000]" 1] by simp
  show ?thesis using a c by simp
qed

text \<open>
  C7. On a buffer of D cells the encoders never touch a cell outside the buffer: no
  space type makes the encoding end in an out-of-bounds access, at build time or at
  query time. The sparse encoding
  writes at most D integers, and for D >= 2 the bitset encoding writes exactly
  ceil(D/32) + 1 words, which is at most D.
\<close>

theorem encoders_stay_within_buffer:
  assumes "length buf = dim"
  shows "CreateIndex_encode spaceTypeCpp dim buf \<noteq> Inl OutOfBounds \<and>
         QueryIndex_encode spaceTypeCpp dim buf \<noteq> Inl OutOfBounds \<and>
         (\<exists>out n. CreateIndex_encode ''jaccard_sparse'' dim buf = Inr (out, n) \<and>
                  n \<le> dim \<and> length out = dim) \<and>
         (2 \<le> dim \<longrightarrow>
            (\<exists>out. CreateIndex_encode ''bit_jaccard'' dim buf = Inr (out, (dim + 31) div 32 + 1) \<and>
                   (dim + 31) div 32 + 1 \<le> dim \<and> length out = dim))"
proof -
  from CreateIndex_encode_jaccard_sparse[OF assms]
  obtain out1 where s1: "CreateIndex_encode ''jaccard_sparse'' dim buf = Inr (out1, length (nonzero_indices buf))"
    and s2: "length out1 = dim"
    by blast
  have s3: "length (nonzero_indices buf) \<le> dim"
    using length_nonzero_indices[of buf] assms by simp
  have sparse: "\<exists>out n. CreateIndex_encode ''jaccard_sparse'' dim buf = Inr (out, n) \<and>
                  n \<le> dim \<and> length out = dim"
    using s1 s2 s3 by blast
  have bitset: "\<exists>out. CreateIndex_encode ''bit_jaccard'' dim buf = Inr (out, (dim + 31) div 32 + 1) \<and>
                   (dim + 31) div 32 + 1 \<le> dim \<and> length out = dim" if "2 \<le> dim"
    using CreateIndex_encode_bit_jaccard[OF assms that] by blast
  have nob: "CreateIndex_encode spaceTypeCpp dim buf \<noteq> Inl OutOfBounds"
  proof (cases "spaceTypeCpp = ''jaccard_sparse''")
    case True
    then show ?thesis using s1 by simp
  next
    case ns: False
    show ?thesis
    proof (cases "spaceTypeCpp = ''bit_jaccard''")
      case False
      then show ?thesis using ns by (simp add: CreateIndex_encode_def)
    next
      case True
      show ?thesis
      proof (cases "dim < 2")
        case True
        then show ?thesis using \<open>spaceTypeCpp = ''bit_jaccard''\<close>
          by (simp add: CreateIndex_encode_def)
      next
        case False
        then have "2 \<le> dim" by simp
        from bitset[OF this] show ?thesis using \<open>spaceTypeCpp = ''bit_jaccard''\<close> by auto
      qed
    qed
  qed
  then have "QueryIndex_encode spaceTypeCpp dim buf \<noteq> Inl OutOfBounds"
    by (simp add: QueryIndex_encode_eq)
  then show ?thesis using nob sparse bitset by blast
qed

theorem encoders_stay_within_buffer_witness:
  "length [0x3F800000, 0x3F800000 :: 32 word] = 2 \<and> (2 :: nat) \<le> 2 \<and>
   CreateIndex_encode ''bit_jaccard'' 2 [0x3F800000, 0x3F800000] \<noteq> Inl OutOfBounds \<and>
   (\<exists>out n. CreateIndex_encode ''jaccard_sparse'' 2 [0x3F800000, 0x3F800000] = Inr (out, n) \<and>
            n \<le> 2 \<and> length out = 2) \<and>
   (\<exists>out. CreateIndex_encode ''bit_jaccard'' 2 [0x3F800000, 0x3F800000] = Inr (out, 2) \<and>
          length out = 2)"
proof -
  have h1: "length [0x3F800000, 0x3F800000 :: 32 word] = 2" by simp
  have h2: "(2 :: nat) \<le> 2" by simp
  have c: "((2 :: nat) + 31) div 32 + 1 = 2" by simp
  note t = encoders_stay_within_buffer[OF h1, of "''bit_jaccard''", unfolded c]
  show ?thesis using t h1 h2 by blast
qed

text \<open>
  C8. The encoding done by QueryIndex equals the encoding done by CreateIndex: for every
  space-type string on which the two dispatch and every buffer, both give the same buffer
  contents and the same encoded length, or the same failure.
\<close>

theorem QueryIndex_encoding_is_CreateIndex_encoding:
  "QueryIndex_encode spaceType dim buf = CreateIndex_encode spaceType dim buf"
  by (rule QueryIndex_encode_eq)

section \<open>Resources of CreateIndex\<close>

lemma delete_Object_fields [simp]:
  "java_floats (delete_Object a st) = java_floats st"
  "saved (delete_Object a st) = saved st"
  "pinned_floats (delete_Object a st) = pinned_floats st"
  "pinned_ints (delete_Object a st) = pinned_ints st"
  "objects (delete_Object a st) = filter (\<lambda>entry. fst entry \<noteq> a) (objects st)"
  by (simp_all add: delete_Object_def)



lemma ReleaseFloatArrayElements_abort [simp]:
  "java_floats (ReleaseFloatArrayElements st ref buf JNI_ABORT) = java_floats st"
  "saved (ReleaseFloatArrayElements st ref buf JNI_ABORT) = saved st"
  "objects (ReleaseFloatArrayElements st ref buf JNI_ABORT) = objects st"
  "pinned_ints (ReleaseFloatArrayElements st ref buf JNI_ABORT) = pinned_ints st"
  "pinned_floats (ReleaseFloatArrayElements st ref buf JNI_ABORT) = remove1 ref (pinned_floats st)"
  by (simp_all add: ReleaseFloatArrayElements_def)

lemma ReleaseIntArrayElements_fields [simp]:
  "java_floats (ReleaseIntArrayElements st) = java_floats st"
  "saved (ReleaseIntArrayElements st) = saved st"
  "objects (ReleaseIntArrayElements st) = objects st"
  "pinned_floats (ReleaseIntArrayElements st) = pinned_floats st"
  "pinned_ints (ReleaseIntArrayElements st) = pinned_ints st - 1"
  by (simp_all add: ReleaseIntArrayElements_def)



lemma write_through_fields [simp]:
  "saved (write_through lib ref buf st) = saved st"
  "objects (write_through lib ref buf st) = objects st"
  "pinned_floats (write_through lib ref buf st) = pinned_floats st"
  "pinned_ints (write_through lib ref buf st) = pinned_ints st"
  "allocated (write_through lib ref buf st) = allocated st"
  by (simp_all add: write_through_def)







section \<open>The result queue and QueryIndex\<close>

lemma result_distances_Some: "result_distances (map Some ds) = map snd ds"
  by (induction ds) simp_all

lemma top_entry_None: "top_entry q = None \<longleftrightarrow> q = []"
  by (induction q) (auto split: option.splits)

lemma top_entry_Some:
  "top_entry q = Some t \<Longrightarrow> t \<in> set q \<and> (\<forall>e \<in> set q. fst e \<le> fst t)"
proof (induction q arbitrary: t)
  case Nil
  then show ?case by simp
next
  case (Cons x xs)
  show ?case
  proof (cases "top_entry xs")
    case None
    then have "xs = []" by (simp add: top_entry_None)
    then show ?thesis using Cons.prems by simp
  next
    case (Some y)
    note ih = Cons.IH[OF Some]
    show ?thesis
    proof (cases "fst y \<le> fst x")
      case True
      then have "t = x" using Cons.prems Some by simp
      then show ?thesis using ih True by auto
    next
      case False
      then have "t = y" using Cons.prems Some by simp
      then show ?thesis using ih False by auto
    qed
  qed
qed

lemma length_remove1_top:
  "top_entry q = Some t \<Longrightarrow> length (remove1 t q) = length q - 1"
  using top_entry_Some[of q t] by (simp add: length_remove1)

lemma length_Push:
  assumes "length q \<le> K"
  shows "length (Push K e q) = min K (length q + 1)"
proof (cases "length q < K")
  case True
  then show ?thesis by (simp add: Push_def)
next
  case False
  then have full: "length q = K" using assms by simp
  show ?thesis
  proof (cases "top_entry q")
    case None
    then show ?thesis using False full by (simp add: Push_def)
  next
    case (Some t)
    have "q \<noteq> []" using Some top_entry_None[of q] by auto
    then have "0 < length q" by simp
    then have "Suc (length (remove1 t q)) = length q"
      using length_remove1_top[OF Some] by simp
    then show ?thesis using False full Some by (simp add: Push_def)
  qed
qed

lemma length_fold_Push:
  "length q \<le> K \<Longrightarrow> length (fold (Push K) cs q) = min K (length q + length cs)"
proof (induction cs arbitrary: q)
  case Nil
  then show ?case by simp
next
  case (Cons c cs)
  have l: "length (Push K c q) = min K (length q + 1)" by (rule length_Push[OF Cons.prems])
  then have "length (Push K c q) \<le> K" by simp
  from Cons.IH[OF this] show ?case using l by simp
qed

lemma Search_Size:
  "Search lib query K = Inr neighbors \<Longrightarrow>
   Size neighbors = min K (length (search_candidates lib query))"
  using length_fold_Push[of "[]" K "search_candidates lib query"]
  by (auto simp add: Search_def Size_def split: if_splits)

lemma QueryIndex_drain_correct:
  "length q = resultSize - i \<Longrightarrow> i \<le> resultSize \<Longrightarrow> length results = resultSize \<Longrightarrow>
   \<exists>ds. QueryIndex_drain resultSize i q results = Inr (take i results @ map Some ds) \<and>
        length ds = resultSize - i \<and> sorted (rev (map snd ds)) \<and>
        snd ` set ds \<subseteq> fst ` set q"
proof (induction resultSize i q results rule: QueryIndex_drain.induct)
  case (1 resultSize i q results)
  show ?case
  proof (cases "i < resultSize")
    case False
    then show ?thesis using "1.prems"
      by (subst QueryIndex_drain.simps) simp
  next
    case lt: True
    then have "q \<noteq> []" using "1.prems" by auto
    then obtain t where t: "top_entry q = Some t"
      using top_entry_None[of q] by (cases "top_entry q") auto
    note tp = top_entry_Some[OF t]
    have td: "TopDistance q = Some (fst t)" using t by (simp add: TopDistance_def)
    have pp: "Pop q = Some (t, remove1 t q)" using t by (simp add: Pop_def)
    let ?results = "results[i := Some (snd t, fst t)]"
    have l1: "length (remove1 t q) = resultSize - (i + 1)"
      using length_remove1_top[OF t] "1.prems" by simp
    have l2: "i + 1 \<le> resultSize" using lt by simp
    have l3: "length ?results = resultSize" using "1.prems" by simp
    from "1.IH"[OF lt td pp refl l1 l2 l3]
    obtain ds where d:
      "QueryIndex_drain resultSize (i + 1) (remove1 t q) ?results =
         Inr (take (i + 1) ?results @ map Some ds)"
      "length ds = resultSize - (i + 1)" "sorted (rev (map snd ds))"
      "snd ` set ds \<subseteq> fst ` set (remove1 t q)"
      by blast
    have tk: "take (i + 1) ?results = take i results @ [Some (snd t, fst t)]"
      using lt "1.prems" by (simp add: take_Suc_conv_app_nth)
    have sub: "snd ` set ds \<subseteq> fst ` set q"
      using d(4) set_remove1_subset[of t q] by blast
    have bound: "\<forall>x \<in> set (map snd ds). x \<le> fst t"
    proof
      fix x assume "x \<in> set (map snd ds)"
      then have "x \<in> fst ` set q" using sub by auto
      then obtain e where "e \<in> set q" "x = fst e" by blast
      then show "x \<le> fst t" using tp by simp
    qed
    have srt: "sorted (rev (map snd ((snd t, fst t) # ds)))"
      using d(3) bound by (simp add: sorted_append)
    have run: "QueryIndex_drain resultSize i q results =
                 Inr (take i results @ map Some ((snd t, fst t) # ds))"
      using lt td pp d(1) tk by (subst QueryIndex_drain.simps) simp
    have "length ((snd t, fst t) # ds) = resultSize - i" using d(2) lt by simp
    moreover have "snd ` set ((snd t, fst t) # ds) \<subseteq> fst ` set q"
      using sub tp by auto
    ultimately show ?thesis using run srt by blast
  qed
qed

lemma QueryIndex_search_correct:
  assumes "QueryIndex_search lib query kJ = Inr results"
  shows "length results = min kJ (length (search_candidates lib query)) \<and>
         None \<notin> set results \<and> sorted (rev (result_distances results))"
proof -
  obtain neighbors where s: "Search lib query kJ = Inr neighbors"
    using assms by (cases "Search lib query kJ") (auto simp add: QueryIndex_search_def)
  let ?n = "Size neighbors"
  have run: "QueryIndex_drain ?n 0 neighbors (replicate ?n None) = Inr results"
    using assms s by (simp add: QueryIndex_search_def Let_def)
  have "\<exists>ds. QueryIndex_drain ?n 0 neighbors (replicate ?n None) =
                Inr (take 0 (replicate ?n None) @ map Some ds) \<and>
        length ds = ?n - 0 \<and> sorted (rev (map snd ds)) \<and>
        snd ` set ds \<subseteq> fst ` set neighbors"
    by (rule QueryIndex_drain_correct) (simp_all add: Size_def)
  then obtain ds where d: "results = map Some ds" "length ds = ?n" "sorted (rev (map snd ds))"
    using run by auto
  have "None \<notin> set results" unfolding d(1) by auto
  then show ?thesis using d Search_Size[OF s] by (simp add: result_distances_Some)
qed



lemma QueryIndex_Inr:
  assumes "QueryIndex lib (Some indexWrapper) (Some queryVector) kJ = (Inr results, st)"
  shows "\<exists>encoded numElems.
           QueryIndex_encode (StrDesc (space indexWrapper)) (length queryVector) queryVector =
             Inr (encoded, numElems) \<and>
           QueryIndex_search lib (take numElems encoded) kJ = Inr results"
  using assms
  by (auto simp add: QueryIndex_def Let_def initial_def GetFloatArrayElements_def
      split: option.splits sum.splits prod.splits if_splits)

section \<open>Resource handling and results of the three operations\<close>

text \<open>
  C2, when appending to the dataset throws for the second of two vectors (line 145): the
  entry of the first vector, already in the dataset, is deleted by the handler, but the
  object just constructed for the second vector is in no container and is still alive
  when the error leaves CreateIndex. A failure of the kinds that leave every constructed
  object in the dataset, here an inconsistent dimension at the second vector, releases
  everything.
\<close>

theorem CreateIndex_push_back_failure_leaks_object:
  "CreateIndex example_names second_push_back_fails (Some [1, 2])
     (Some [[0x3F800000, 0], [0, 0x3F800000]]) (Some ''/tmp/index'')
     (Some (JMap [(''spaceType'', JString ''l2'')])) =
     (Some (External ''push_back''),
      (initial [[0x3F800000, 0], [0, 0x3F800000]])
        \<lparr>pinned_floats := [1], objects := [(1, 2, [0, 0x3F800000])], allocated := 2\<rparr>) \<and>
   CreateIndex example_names reliable (Some [1, 2])
     (Some [[0x3F800000, 0], [0x3F800000]]) (Some ''/tmp/index'')
     (Some (JMap [(''spaceType'', JString ''l2'')])) =
     (Some (RuntimeError ''Dimension of vectors is inconsistent''),
      (initial [[0x3F800000, 0], [0x3F800000]])\<lparr>allocated := 1\<rparr>)"
  by code_simp

text \<open>
  C9, at the input ids = [1], vectors = [[1.0]], space type bit_jaccard: the build fails
  with the bit_jaccard dimension error, and the buffer pinned for vector 0 at line 113 is
  still pinned when the error leaves CreateIndex. The throw of line 126 skips the release
  of line 146 and the handler of lines 158 to 165 releases only the dataset and the ids.
  A count mismatch, ids = [1, 2] against one vector, fails at line 93 with nothing left
  held.
\<close>

theorem CreateIndex_bit_jaccard_failure_leaves_vector_pinned:
  "CreateIndex example_names reliable (Some [1]) (Some [[0x3F800000]]) (Some ''/tmp/index'')
     (Some (JMap [(''spaceType'', JString ''bit_jaccard'')])) =
     (Some (RuntimeError ''Dimension of vectors for bit_jaccard must be > 1!''),
      (initial [[0x3F800000]])\<lparr>pinned_floats := [0]\<rparr>) \<and>
   CreateIndex example_names reliable (Some [1, 2]) (Some [[0x3F800000, 0]]) (Some ''/tmp/index'')
     (Some (JMap [(''spaceType'', JString ''bit_jaccard'')])) =
     (Some (RuntimeError ''Number of IDs does not match number of vectors''),
      initial [[0x3F800000, 0]])"
  by code_simp

text \<open>
  C4, at a bit_jaccard handle and the one-element query [1.0]: QueryIndex fails with the
  bit_jaccard dimension error while the query buffer acquired at line 225 is still
  pinned; the throw of line 238 has no release before it. The sibling failure, the
  constructor of the query object throwing at line 259, does release the buffer.
\<close>

theorem QueryIndex_bit_jaccard_failure_leaves_query_pinned:
  "QueryIndex reliable (Some bit_jaccard_handle) (Some [0x3F800000]) 1 =
     (Inl (RuntimeError ''Dimension of vectors for bit_jaccard must be > 1!''),
      (initial [[0x3F800000]])\<lparr>pinned_floats := [0]\<rparr>) \<and>
   QueryIndex (reliable\<lparr>new_Object_throws := (\<lambda>n. True)\<rparr>) (Some l2_handle)
       (Some [0x3F800000]) 1 =
     (Inl (External ''similarity::Object''), initial [[0x3F800000]])"
  by code_simp

text \<open>
  C3, when the construction of the space object throws inside the constructor of the
  handle: the handler deletes through `indexWrapper`, which was never assigned, and the
  execution has no defined behaviour. When the failure comes after the assignment, from
  loading the persisted state, the handle is released and the error is rethrown with
  nothing left allocated.
\<close>

theorem LoadIndex_constructor_failure_deletes_unassigned_pointer:
  "LoadIndex example_names (reliable\<lparr>CreateSpace_throws := (\<lambda>s. True)\<rparr>) (Some ''/tmp/index'')
     (Some (JMap [(''spaceType'', JString ''l2'')])) =
     (Inl UndefinedBehaviour, initial []) \<and>
   LoadIndex example_names (reliable\<lparr>index_LoadIndex_throws := (\<lambda>s. True)\<rparr>) (Some ''/tmp/index'')
     (Some (JMap [(''spaceType'', JString ''l2'')])) =
     (Inl (External ''LoadIndex''), initial [])"
  by code_simp




text \<open>
  C1 as stated fails: with candidates at distances 0, 2 and 1 and k = 2 the array
  returned by QueryIndex holds distance 1 in slot 0 and distance 0 in slot 1.
\<close>

theorem QueryIndex_results_not_ascending:
  "fst (QueryIndex reliable (Some l2_handle) (Some [0x3F800000, 0]) 2) =
     Inr [Some (3, 1), Some (1, 0)] \<and>
   \<not> sorted (result_distances [Some (3, 1 :: int), Some (1, 0)])"
  by code_simp

text \<open>
  C1, amended. For every successful QueryIndex call requesting k neighbours, the
  returned array has exactly min(k, number of candidates the search produced) slots,
  hence at most k, every slot is filled, and the distances are in descending order,
  farthest first.
\<close>

theorem QueryIndex_results_farthest_first:
  assumes "QueryIndex lib (Some indexWrapper) (Some queryVector) kJ = (Inr results, st)"
  shows "\<exists>encoded numElems.
           QueryIndex_encode (StrDesc (space indexWrapper)) (length queryVector) queryVector =
             Inr (encoded, numElems) \<and>
           length results = min kJ (length (search_candidates lib (take numElems encoded))) \<and>
           length results \<le> kJ \<and>
           None \<notin> set results \<and>
           sorted (rev (result_distances results))"
proof -
  from QueryIndex_Inr[OF assms]
  obtain encoded numElems where
    e: "QueryIndex_encode (StrDesc (space indexWrapper)) (length queryVector) queryVector =
          Inr (encoded, numElems)"
    and s: "QueryIndex_search lib (take numElems encoded) kJ = Inr results"
    by blast
  note c = QueryIndex_search_correct[OF s]
  have "length results \<le> kJ" using c by simp
  then show ?thesis using e c by blast
qed

theorem QueryIndex_results_farthest_first_witness:
  "QueryIndex reliable (Some l2_handle) (Some [0x3F800000, 0]) 3 =
     (Inr [Some (2, 2), Some (3, 1), Some (1, 0)], (initial [[0x3F800000, 0]])\<lparr>allocated := 1\<rparr>) \<and>
   length [Some (2, 2 :: int), Some (3, 1), Some (1 :: int, 0)] \<le> 3 \<and>
   sorted (rev (result_distances [Some (2, 2 :: int), Some (3, 1), Some (1 :: int, 0)]))"
proof -
  have run: "QueryIndex reliable (Some l2_handle) (Some [0x3F800000, 0]) 3 =
     (Inr [Some (2, 2), Some (3, 1), Some (1, 0)], (initial [[0x3F800000, 0]])\<lparr>allocated := 1\<rparr>)"
    by code_simp
  from QueryIndex_results_farthest_first[OF run]
  have "length [Some (2, 2 :: int), Some (3, 1), Some (1 :: int, 0)] \<le> 3 \<and>
        sorted (rev (result_distances [Some (2, 2 :: int), Some (3, 1), Some (1 :: int, 0)]))"
    by blast
  then show ?thesis using run by blast
qed

end
